theory Spec2Isabelle
  imports Complex_Main
begin

section \<open>JavaScript values shared by the two modules\<close>

text \<open>
  A JavaScript \<^verbatim>\<open>Map<string, V>\<close> keeps its entries in insertion order and holds a key
  at most once; it is modelled as an association list. \<^verbatim>\<open>set\<close> on a key that is present
  replaces the value at the entry's position, \<^verbatim>\<open>set\<close> on a new key appends an entry,
  \<^verbatim>\<open>delete\<close> removes the entry. A \<^verbatim>\<open>Set<string>\<close> is the list of its elements in
  insertion order.
\<close>

type_synonym 'v js_map = "(string \<times> 'v) list"

type_synonym js_set = "string list"

fun Map_set :: "'v js_map \<Rightarrow> string \<Rightarrow> 'v \<Rightarrow> 'v js_map" where
  "Map_set [] k v = [(k, v)]"
| "Map_set ((k', v') # es) k v =
     (if k' = k then (k, v) # es else (k', v') # Map_set es k v)"

definition Map_delete :: "'v js_map \<Rightarrow> string \<Rightarrow> 'v js_map" where
  "Map_delete m k = filter (\<lambda>e. fst e \<noteq> k) m"

definition Map_keys :: "'v js_map \<Rightarrow> string list" where
  "Map_keys m = map fst m"

definition Map_has :: "'v js_map \<Rightarrow> string \<Rightarrow> bool" where
  "Map_has m k = (k \<in> set (Map_keys m))"

text \<open>\<^verbatim>\<open>new Map(iterable)\<close>: the entries are \<^verbatim>\<open>set\<close> one after the other.\<close>

definition new_Map :: "(string \<times> 'v) list \<Rightarrow> 'v js_map" where
  "new_Map es = foldl (\<lambda>m e. Map_set m (fst e) (snd e)) [] es"

definition Set_add :: "js_set \<Rightarrow> string \<Rightarrow> js_set" where
  "Set_add s x = (if x \<in> set s then s else s @ [x])"

definition Set_has :: "js_set \<Rightarrow> string \<Rightarrow> bool" where
  "Set_has s x = (x \<in> set s)"

text \<open>\<^verbatim>\<open>new Set(iterable)\<close>: the elements are added one after the other.\<close>

definition new_Set :: "string list \<Rightarrow> js_set" where
  "new_Set xs = foldl Set_add [] xs"

text \<open>
  A JavaScript number is a double: not a number, an infinity, or a finite value, which is a
  rational number (zero stands for both signed zeros, which are falsy alike and print
  alike). Not every rational is a double; the model says the same of all of them.
\<close>

datatype number = NaN | PosInfinity | NegInfinity | Finite rat

text \<open>A number is truthy unless it is zero or not a number.\<close>

definition Number_truthy :: "number \<Rightarrow> bool" where
  "Number_truthy n = (case n of NaN \<Rightarrow> False | Finite x \<Rightarrow> x \<noteq> 0 | _ \<Rightarrow> True)"

text \<open>The comparison \<^verbatim>\<open>a >= b\<close>: false as soon as one side is not a number.\<close>

fun Number_ge :: "number \<Rightarrow> number \<Rightarrow> bool" where
  "Number_ge NaN b = False"
| "Number_ge a NaN = False"
| "Number_ge PosInfinity b = True"
| "Number_ge a NegInfinity = True"
| "Number_ge NegInfinity b = False"
| "Number_ge (Finite x) PosInfinity = False"
| "Number_ge (Finite x) (Finite y) = (y \<le> x)"

fun decimal :: "nat \<Rightarrow> string" where
  "decimal n =
     (if n < 10 then [''0123456789'' ! n]
      else decimal (n div 10) @ [''0123456789'' ! (n mod 10)])"

declare decimal.simps [simp del]

text \<open>
  The string a template literal (and string concatenation) makes of a number. An integer
  up to \<^verbatim>\<open>Number.MAX_SAFE_INTEGER\<close> in magnitude is printed with all its decimal digits,
  with a minus sign when negative. Every other finite value (a fraction, or an integer
  beyond that bound, where digits are rounded away and from \<^verbatim>\<open>1e21\<close> on the exponent
  notation is used) is printed by the language's shortest-digits algorithm, which is not
  modelled: it is the parameter \<open>other\<close>.
\<close>

definition MAX_SAFE_INTEGER :: rat where
  "MAX_SAFE_INTEGER = 9007199254740991"

definition Number_toString :: "(rat \<Rightarrow> string) \<Rightarrow> number \<Rightarrow> string" where
  "Number_toString other n =
     (case n of
        NaN \<Rightarrow> ''NaN''
      | PosInfinity \<Rightarrow> ''Infinity''
      | NegInfinity \<Rightarrow> ''-Infinity''
      | Finite x \<Rightarrow>
          if of_int \<lfloor>x\<rfloor> = x \<and> \<bar>x\<bar> \<le> MAX_SAFE_INTEGER
          then (if x < 0 then ''-'' @ decimal (nat (- \<lfloor>x\<rfloor>)) else decimal (nat \<lfloor>x\<rfloor>))
          else other x)"

section \<open>The hook \<^verbatim>\<open>usePullRequests\<close>\<close>

text \<open>The two \<^verbatim>\<open>useState\<close> cells of the hook, with their initial values 1 and 500.\<close>

record pull_requests_state =
  page :: number
  limit :: number

definition usePullRequests_initial :: pull_requests_state where
  "usePullRequests_initial = \<lparr>page = Finite 1, limit = Finite 500\<rparr>"

definition setPage :: "number \<Rightarrow> pull_requests_state \<Rightarrow> pull_requests_state" where
  "setPage p st = st\<lparr>page := p\<rparr>"

definition setLimit :: "number \<Rightarrow> pull_requests_state \<Rightarrow> pull_requests_state" where
  "setLimit l st = st\<lparr>limit := l\<rparr>"

definition stars :: number where
  "stars = Finite 1000"

definition pageQuery :: "(rat \<Rightarrow> string) \<Rightarrow> pull_requests_state \<Rightarrow> string" where
  "pageQuery other st =
     (if Number_truthy (page st) then ''page='' @ Number_toString other (page st) else [])"

definition limitQuery :: "(rat \<Rightarrow> string) \<Rightarrow> pull_requests_state \<Rightarrow> string" where
  "limitQuery other st =
     (if Number_truthy (limit st) then ''&limit='' @ Number_toString other (limit st) else [])"

definition starsQuery :: "(rat \<Rightarrow> string) \<Rightarrow> string" where
  "starsQuery other =
     (if Number_truthy stars then ''&stars='' @ Number_toString other stars else [])"

definition baseEndpoint :: string where
  "baseEndpoint = ''prs/list''"

definition endpointString :: "(rat \<Rightarrow> string) \<Rightarrow> pull_requests_state \<Rightarrow> string" where
  "endpointString other st =
     baseEndpoint @ ''?'' @ pageQuery other st @ limitQuery other st @ starsQuery other"

text \<open>
  The response type. \<^verbatim>\<open>DbRepoPR\<close> is declared outside the two modules and stays a type
  parameter; \<^verbatim>\<open>Meta\<close> has the six fields of the literal the hook falls back to, its
  counters as integers.
\<close>

record Meta =
  itemCount :: int
  meta_limit :: int
  meta_page :: int
  hasNextPage :: bool
  hasPreviousPage :: bool
  pageCount :: int

record 'pr PaginatedResponse =
  response_data :: "'pr list"
  response_meta :: Meta

text \<open>
  What \<^verbatim>\<open>useSWR\<close> hands back for a key: the data and the error, each possibly absent
  (\<^verbatim>\<open>undefined\<close> is \<open>None\<close>; a response object and an \<^verbatim>\<open>Error\<close> object are truthy).
\<close>

record ('pr, 'e) swr_response =
  swr_data :: "'pr PaginatedResponse option"
  swr_error :: "'e option"

text \<open>
  The object the hook returns. Its \<^verbatim>\<open>mutate\<close>, \<^verbatim>\<open>setPage\<close> and \<^verbatim>\<open>setLimit\<close> members are
  functions; the last two are \<open>setPage\<close> and \<open>setLimit\<close> above.
\<close>

record 'pr pull_requests_result =
  data :: "'pr list"
  meta :: Meta
  isLoading :: bool
  isError :: bool
  result_page :: number

definition usePullRequests ::
  "(rat \<Rightarrow> string) \<Rightarrow> (string \<Rightarrow> ('pr, 'e) swr_response) \<Rightarrow> pull_requests_state
     \<Rightarrow> 'pr pull_requests_result" where
  "usePullRequests other useSWR st =
     (let r = useSWR (endpointString other st) in
      \<lparr>data = (case swr_data r of Some d \<Rightarrow> response_data d | None \<Rightarrow> []),
       meta = (case swr_data r of Some d \<Rightarrow> response_meta d
               | None \<Rightarrow> \<lparr>itemCount = 0, meta_limit = 0, meta_page = 0, hasNextPage = False,
                           hasPreviousPage = False, pageCount = 0\<rparr>),
       isLoading = (\<not> (swr_error r \<noteq> None) \<and> \<not> (swr_data r \<noteq> None)),
       isError = (\<not> \<not> (swr_error r \<noteq> None)),
       result_page = page st\<rparr>)"

section \<open>The settings page: \<^verbatim>\<open>getServerSideProps\<close>\<close>

text \<open>
  \<^verbatim>\<open>fetchApiData\<close> lives outside the two modules and is a parameter: it takes the request
  and resolves to \<^verbatim>\<open>{ data, error }\<close>. An error object is truthy and carries a numeric
  status; no error is \<^verbatim>\<open>null\<close>, modelled as \<open>None\<close>.
\<close>

record session =
  access_token :: string

record fetch_request =
  path :: string
  bearerToken :: string

record fetch_error =
  status :: int

record 'w fetch_result =
  fetch_data :: "'w option"
  fetch_error :: "fetch_error option"

datatype js_error = Error string

text \<open>
  The two shapes the function returns: \<^verbatim>\<open>{ notFound: true }\<close> and
  \<^verbatim>\<open>{ props: { workspace: data } }\<close>. A thrown \<^verbatim>\<open>Error\<close> is the left summand of the result.
\<close>

datatype 'w server_side_result = notFound | props "'w option"

text \<open>
  \<^verbatim>\<open>context.params?.workspaceId\<close> may be absent; a template literal renders
  \<^verbatim>\<open>undefined\<close> as the word itself.
\<close>

definition template_string :: "string option \<Rightarrow> string" where
  "template_string v = (case v of Some s \<Rightarrow> s | None \<Rightarrow> ''undefined'')"

definition workspace_request :: "session option \<Rightarrow> string option \<Rightarrow> fetch_request" where
  "workspace_request sess workspaceId =
     \<lparr>path = ''workspaces/'' @ template_string workspaceId,
      bearerToken = (case sess of Some s \<Rightarrow> access_token s | None \<Rightarrow> '''')\<rparr>"

definition getServerSideProps ::
  "(fetch_request \<Rightarrow> 'w fetch_result) \<Rightarrow> session option \<Rightarrow> string option
     \<Rightarrow> js_error + 'w server_side_result" where
  "getServerSideProps fetchApiData sess workspaceId =
     (let r = fetchApiData (workspace_request sess workspaceId) in
      case fetch_error r of
        Some error \<Rightarrow>
          if status error = 404 then Inr notFound
          else Inl (Error (''Error loading workspaces page with ID '' @ template_string workspaceId))
      | None \<Rightarrow> Inr (props (fetch_data r)))"

section \<open>The settings page: the component \<^verbatim>\<open>WorkspaceSettings\<close>\<close>

text \<open>The five \<^verbatim>\<open>useState\<close> cells of the component.\<close>

record settings_state =
  isDeleteModalOpen :: bool
  workspaceName :: string
  trackedReposModalOpen :: bool
  trackedRepos :: "bool js_map"
  trackedReposPendingDeletion :: js_set

definition WorkspaceSettings_initial :: "string \<Rightarrow> settings_state" where
  "WorkspaceSettings_initial workspace_name =
     \<lparr>isDeleteModalOpen = False, workspaceName = workspace_name, trackedReposModalOpen = False,
      trackedRepos = new_Map [], trackedReposPendingDeletion = new_Set []\<rparr>"

text \<open>
  The rows \<^verbatim>\<open>useGetWorkspaceRepositories\<close> returns: the response may be absent, and so
  may its \<^verbatim>\<open>data\<close> member (\<^verbatim>\<open>data?.data?.map(...) ?? []\<close>).
\<close>

record repo_ref =
  full_name :: string

record workspace_repo_row =
  repo :: repo_ref

record workspace_repos_response =
  rows :: "workspace_repo_row list option"

definition initialTrackedRepos :: "workspace_repos_response option \<Rightarrow> string list" where
  "initialTrackedRepos resp =
     (case resp of
        None \<Rightarrow> []
      | Some d \<Rightarrow> (case rows d of None \<Rightarrow> [] | Some rs \<Rightarrow> map (\<lambda>r. full_name (repo r)) rs))"

text \<open>
  \<^verbatim>\<open>pendingTrackedRepos.forEach\<close> with the callback that deletes the visited entry when
  its key is pending deletion. The first list is what is left to visit, in insertion
  order; an entry that is no longer in the map is not visited.
\<close>

fun forEach_delete_pending :: "js_set \<Rightarrow> 'v js_map \<Rightarrow> 'v js_map \<Rightarrow> 'v js_map" where
  "forEach_delete_pending pending [] m = m"
| "forEach_delete_pending pending ((repo_name, isSelected) # rest) m =
     (if Map_has m repo_name \<and> Set_has pending repo_name
      then forEach_delete_pending pending rest (Map_delete m repo_name)
      else forEach_delete_pending pending rest m)"

definition pendingTrackedRepos :: "string list \<Rightarrow> settings_state \<Rightarrow> bool js_map" where
  "pendingTrackedRepos initial st =
     (let m = new_Map (map (\<lambda>r. (r, True)) initial @ trackedRepos st)
      in forEach_delete_pending (trackedReposPendingDeletion st) m m)"

text \<open>The handlers of the table and of the tracked-repos modal, as state updates.\<close>

definition onAddRepos :: "settings_state \<Rightarrow> settings_state" where
  "onAddRepos st = st\<lparr>trackedReposModalOpen := True\<rparr>"

text \<open>
  \<^verbatim>\<open>onRemoveTrackedRepo\<close>: the repo comes from the element's data set and may be absent;
  an absent or empty name is falsy, and the handler returns after logging.
\<close>

definition onRemoveTrackedRepo :: "string option \<Rightarrow> settings_state \<Rightarrow> settings_state" where
  "onRemoveTrackedRepo dataset_repo st =
     (case dataset_repo of
        None \<Rightarrow> st
      | Some r \<Rightarrow>
          if r = '''' then st
          else st\<lparr>trackedRepos := Map_delete (new_Map (trackedRepos st)) r,
                  trackedReposPendingDeletion :=
                    new_Set (trackedReposPendingDeletion st @ [r])\<rparr>)"

fun forEach_selected :: "bool js_map \<Rightarrow> bool js_map \<Rightarrow> bool js_map" where
  "forEach_selected [] updates = updates"
| "forEach_selected ((repo_name, isSelected) # rest) updates =
     forEach_selected rest
       (if isSelected then Map_set updates repo_name True else Map_delete updates repo_name)"

definition onAddToTrackingList :: "bool js_map \<Rightarrow> settings_state \<Rightarrow> settings_state" where
  "onAddToTrackingList repos st =
     st\<lparr>trackedReposModalOpen := False,
        trackedRepos := forEach_selected repos (new_Map (trackedRepos st))\<rparr>"

subsection \<open>The asynchronous handlers\<close>

text \<open>
  \<^verbatim>\<open>saveWorkspace\<close>, \<^verbatim>\<open>deleteTrackedRepos\<close> and \<^verbatim>\<open>deleteWorkspace\<close> live outside the two
  modules and are parameters: each takes its request object and resolves to
  \<^verbatim>\<open>{ data, error }\<close>, where an error object is truthy and no error is \<open>None\<close>.
\<close>

record save_request =
  sw_workspaceId :: string
  sw_name :: string
  sw_description :: string
  sw_sessionToken :: "string option"
  sw_repos :: "repo_ref list"

record delete_repos_request =
  dr_workspaceId :: string
  dr_sessionToken :: "string option"
  dr_repos :: "repo_ref list"

record delete_workspace_request =
  dw_workspaceId :: string
  dw_sessionToken :: "string option"

record ('d, 'e) api_result =
  result_data :: "'d option"
  result_error :: "'e option"

datatype variant = danger | success

record toast_message =
  description :: string
  variant :: variant

text \<open>
  What a handler does to the outside, in the order of the program text. A call that starts a
  request and the point where the handler resumes with its result are two events:
  \<^verbatim>\<open>await f(x)\<close> is the call followed at once by the wait for its result.
\<close>

datatype request_name = SaveWorkspace | DeleteTrackedRepos | DeleteWorkspace

datatype 'd effect =
    preventDefault
  | saveWorkspace_called save_request
  | deleteTrackedRepos_called delete_repos_request
  | deleteWorkspace_called delete_workspace_request
  | awaited request_name
  | awaited_Promise_all "request_name list"
  | toast toast_message
  | dispatch_WORKSPACE_UPDATED_EVENT "'d option"
  | mutateTrackedRepos
  | router_push string

definition Array_from_keys :: "'v js_map \<Rightarrow> repo_ref list" where
  "Array_from_keys m = map (\<lambda>e. \<lparr>full_name = fst e\<rparr>) m"

definition Array_from_set :: "js_set \<Rightarrow> repo_ref list" where
  "Array_from_set s = map (\<lambda>r. \<lparr>full_name = r\<rparr>) s"

text \<open>
  The two request objects the submit handler builds from the render's state, and the handler
  where both requests fulfil: each helper answers with its result object.
\<close>

definition saveWorkspace_request ::
  "string \<Rightarrow> string option \<Rightarrow> settings_state \<Rightarrow> string \<Rightarrow> string \<Rightarrow> save_request" where
  "saveWorkspace_request workspace_id sessionToken st name descr =
     \<lparr>sw_workspaceId = workspace_id, sw_name = name, sw_description = descr,
      sw_sessionToken = sessionToken, sw_repos = Array_from_keys (trackedRepos st)\<rparr>"

definition deleteTrackedRepos_request ::
  "string \<Rightarrow> string option \<Rightarrow> settings_state \<Rightarrow> delete_repos_request" where
  "deleteTrackedRepos_request workspace_id sessionToken st =
     \<lparr>dr_workspaceId = workspace_id, dr_sessionToken = sessionToken,
      dr_repos = Array_from_set (trackedReposPendingDeletion st)\<rparr>"

definition updateWorkspace ::
  "(save_request \<Rightarrow> ('d, 'e) api_result) \<Rightarrow> (delete_repos_request \<Rightarrow> ('r, 'e) api_result)
     \<Rightarrow> string \<Rightarrow> string option \<Rightarrow> settings_state \<Rightarrow> string \<Rightarrow> string
     \<Rightarrow> 'd effect list \<times> settings_state" where
  "updateWorkspace saveWorkspace deleteTrackedRepos workspace_id sessionToken st name descr =
     (let save_req = saveWorkspace_request workspace_id sessionToken st name descr;
          workspaceUpdate = saveWorkspace save_req;
          delete_req = deleteTrackedRepos_request workspace_id sessionToken st;
          workspaceRepoDeletes = deleteTrackedRepos delete_req;
          error = result_error workspaceUpdate;
          reposDeleteError = result_error workspaceRepoDeletes;
          requests =
            [preventDefault,
             saveWorkspace_called save_req, awaited SaveWorkspace,
             deleteTrackedRepos_called delete_req, awaited DeleteTrackedRepos,
             awaited_Promise_all [SaveWorkspace, DeleteTrackedRepos]]
      in if error \<noteq> None \<or> reposDeleteError \<noteq> None
         then (requests @ [toast \<lparr>description = ''Workspace update failed'', variant = danger\<rparr>],
               st)
         else (requests @
                 [dispatch_WORKSPACE_UPDATED_EVENT (result_data workspaceUpdate),
                  mutateTrackedRepos,
                  toast \<lparr>description = ''Workspace updated successfully'', variant = success\<rparr>],
               st\<lparr>workspaceName := name,
                   trackedReposPendingDeletion := new_Set [],
                   trackedRepos := new_Map []\<rparr>))"

text \<open>
  The same handler when a request may also settle by rejecting. The handler has no
  \<^verbatim>\<open>try\<close>: an \<^verbatim>\<open>await\<close> on a rejected promise throws, the handler rejects with the same
  reason at that point and nothing after it runs. A helper here answers \<open>Inl reason\<close> when
  its promise rejects and \<open>Inr result\<close> when it fulfils; the third component of the result
  says how the handler itself settled.
\<close>

datatype 'x outcome = fulfilled | rejected 'x

definition updateWorkspace_settled ::
  "(save_request \<Rightarrow> 'x + ('d, 'e) api_result)
     \<Rightarrow> (delete_repos_request \<Rightarrow> 'x + ('r, 'e) api_result)
     \<Rightarrow> string \<Rightarrow> string option \<Rightarrow> settings_state \<Rightarrow> string \<Rightarrow> string
     \<Rightarrow> 'd effect list \<times> settings_state \<times> 'x outcome" where
  "updateWorkspace_settled saveWorkspace deleteTrackedRepos workspace_id sessionToken st name descr =
     (let save_req = saveWorkspace_request workspace_id sessionToken st name descr;
          delete_req = deleteTrackedRepos_request workspace_id sessionToken st
      in case saveWorkspace save_req of
           Inl reason \<Rightarrow>
             ([preventDefault, saveWorkspace_called save_req], st, rejected reason)
         | Inr workspaceUpdate \<Rightarrow>
            (case deleteTrackedRepos delete_req of
               Inl reason \<Rightarrow>
                 ([preventDefault,
                   saveWorkspace_called save_req, awaited SaveWorkspace,
                   deleteTrackedRepos_called delete_req], st, rejected reason)
             | Inr workspaceRepoDeletes \<Rightarrow>
                (let error = result_error workspaceUpdate;
                     reposDeleteError = result_error workspaceRepoDeletes;
                     requests =
                       [preventDefault,
                        saveWorkspace_called save_req, awaited SaveWorkspace,
                        deleteTrackedRepos_called delete_req, awaited DeleteTrackedRepos,
                        awaited_Promise_all [SaveWorkspace, DeleteTrackedRepos]]
                 in if error \<noteq> None \<or> reposDeleteError \<noteq> None
                    then (requests @
                            [toast \<lparr>description = ''Workspace update failed'',
                                    variant = danger\<rparr>],
                          st, fulfilled)
                    else (requests @
                            [dispatch_WORKSPACE_UPDATED_EVENT (result_data workspaceUpdate),
                             mutateTrackedRepos,
                             toast \<lparr>description = ''Workspace updated successfully'',
                                    variant = success\<rparr>],
                          st\<lparr>workspaceName := name,
                              trackedReposPendingDeletion := new_Set [],
                              trackedRepos := new_Map []\<rparr>,
                          fulfilled))))"

definition onDelete ::
  "(delete_workspace_request \<Rightarrow> ('d, 'e) api_result) \<Rightarrow> string \<Rightarrow> string option
     \<Rightarrow> 'd effect list" where
  "onDelete deleteWorkspace workspace_id sessionToken =
     (let req = \<lparr>dw_workspaceId = workspace_id, dw_sessionToken = sessionToken\<rparr>;
          error = result_error (deleteWorkspace req);
          request = [deleteWorkspace_called req, awaited DeleteWorkspace]
      in if error \<noteq> None
         then request @ [toast \<lparr>description = ''Workspace delete failed'', variant = danger\<rparr>]
         else request @
                [toast \<lparr>description = ''Workspace deleted successfully'', variant = success\<rparr>,
                 router_push ''/workspaces/new''])"

text \<open>Projections of a handler's effects that the properties below speak about.\<close>

definition toasts :: "'d effect list \<Rightarrow> toast_message list" where
  "toasts es = concat (map (\<lambda>e. case e of toast t \<Rightarrow> [t] | _ \<Rightarrow> []) es)"

definition navigations :: "'d effect list \<Rightarrow> string list" where
  "navigations es = concat (map (\<lambda>e. case e of router_push p \<Rightarrow> [p] | _ \<Rightarrow> []) es)"

definition save_requests :: "'d effect list \<Rightarrow> save_request list" where
  "save_requests es = concat (map (\<lambda>e. case e of saveWorkspace_called q \<Rightarrow> [q] | _ \<Rightarrow> []) es)"

definition delete_repos_requests :: "'d effect list \<Rightarrow> delete_repos_request list" where
  "delete_repos_requests es =
     concat (map (\<lambda>e. case e of deleteTrackedRepos_called q \<Rightarrow> [q] | _ \<Rightarrow> []) es)"

text \<open>The position of the first occurrence of an effect in a trace, if it occurs.\<close>

fun position :: "'a \<Rightarrow> 'a list \<Rightarrow> nat option" where
  "position x [] = None"
| "position x (y # ys) =
     (if x = y then Some 0 else map_option Suc (position x ys))"

section \<open>Example inputs\<close>

text \<open>
  A render state with two newly added repos and one repo pending deletion; three backends:
  one that resolves without an error, one that resolves with an error and one whose promise
  rejects; a stand-in for the number printing at \<^verbatim>\<open>1e21\<close>; and a cache that has a response
  under one key only.
\<close>

definition example_state :: settings_state where
  "example_state =
     \<lparr>isDeleteModalOpen = False, workspaceName = ''old'', trackedReposModalOpen = False,
      trackedRepos = [(''e/f'', True), (''g/h'', True)],
      trackedReposPendingDeletion = [''a/b'']\<rparr>"

definition request_ok :: "'q \<Rightarrow> (string, string) api_result" where
  "request_ok q = \<lparr>result_data = Some ''done'', result_error = None\<rparr>"

definition request_failed :: "'q \<Rightarrow> (string, string) api_result" where
  "request_failed q = \<lparr>result_data = None, result_error = Some ''Forbidden''\<rparr>"



definition exponent_notation :: "rat \<Rightarrow> string" where
  "exponent_notation x = ''1e+21''"

definition answer_for :: "string \<Rightarrow> string \<Rightarrow> (nat, string) swr_response" where
  "answer_for expected key =
     (if key = expected
      then \<lparr>swr_data =
              Some \<lparr>response_data = [7],
                    response_meta =
                      \<lparr>itemCount = 1, meta_limit = 50, meta_page = 2, hasNextPage = False,
                       hasPreviousPage = True, pageCount = 2\<rparr>\<rparr>,
            swr_error = None\<rparr>
      else \<lparr>swr_data = None, swr_error = Some ''another key''\<rparr>)"

section \<open>Properties of the map and set operations\<close>

lemma Map_keys_Nil: "Map_keys [] = []"
  by (simp add: Map_keys_def)

lemma Map_keys_Cons: "Map_keys (e # es) = fst e # Map_keys es"
  by (simp add: Map_keys_def)

lemma set_keys_Map_set: "set (Map_keys (Map_set m k v)) = insert k (set (Map_keys m))"
  by (induction m k v rule: Map_set.induct) (auto simp: Map_keys_Nil Map_keys_Cons)

lemma set_keys_Map_delete: "set (Map_keys (Map_delete m k)) = set (Map_keys m) - {k}"
  by (auto simp: Map_keys_def Map_delete_def)

lemma set_keys_foldl_Map_set:
  "set (Map_keys (foldl (\<lambda>m e. Map_set m (fst e) (snd e)) m es)) = set (Map_keys m) \<union> fst ` set es"
  by (induction es arbitrary: m) (auto simp: set_keys_Map_set)

lemma set_keys_new_Map: "set (Map_keys (new_Map es)) = fst ` set es"
  unfolding new_Map_def set_keys_foldl_Map_set by (simp add: Map_keys_Nil)

lemma distinct_keys_Map_set: "distinct (Map_keys m) \<Longrightarrow> distinct (Map_keys (Map_set m k v))"
  by (induction m k v rule: Map_set.induct) (auto simp: Map_keys_Nil Map_keys_Cons set_keys_Map_set)

lemma distinct_keys_Map_delete: "distinct (Map_keys m) \<Longrightarrow> distinct (Map_keys (Map_delete m k))"
  by (simp add: Map_keys_def Map_delete_def distinct_map_filter)

lemma distinct_keys_foldl_Map_set:
  "distinct (Map_keys m) \<Longrightarrow> distinct (Map_keys (foldl (\<lambda>m e. Map_set m (fst e) (snd e)) m es))"
  by (induction es arbitrary: m) (auto simp: distinct_keys_Map_set)

lemma distinct_keys_new_Map: "distinct (Map_keys (new_Map es))"
  unfolding new_Map_def by (rule distinct_keys_foldl_Map_set) (simp add: Map_keys_Nil)

lemma set_keys_forEach_delete_pending:
  "set (Map_keys (forEach_delete_pending pending es m)) =
     set (Map_keys m) - (set (Map_keys es) \<inter> set pending)"
  by (induction pending es m rule: forEach_delete_pending.induct)
     (auto simp: set_keys_Map_delete Map_has_def Set_has_def Map_keys_Nil Map_keys_Cons)

lemma distinct_keys_forEach_delete_pending:
  "distinct (Map_keys m) \<Longrightarrow> distinct (Map_keys (forEach_delete_pending pending es m))"
  by (induction pending es m rule: forEach_delete_pending.induct)
     (auto simp: distinct_keys_Map_delete)

lemma set_keys_pendingTrackedRepos:
  "set (Map_keys (pendingTrackedRepos initial st)) =
     (set initial \<union> set (Map_keys (trackedRepos st))) - set (trackedReposPendingDeletion st)"
proof -
  have "fst ` set (map (\<lambda>r. (r, True)) initial @ trackedRepos st) =
          set initial \<union> set (Map_keys (trackedRepos st))"
    by (simp add: Map_keys_def image_Un image_image)
  then show ?thesis
    unfolding pendingTrackedRepos_def Let_def set_keys_forEach_delete_pending set_keys_new_Map
    by auto
qed

lemma distinct_keys_pendingTrackedRepos: "distinct (Map_keys (pendingTrackedRepos initial st))"
  unfolding pendingTrackedRepos_def Let_def
  by (rule distinct_keys_forEach_delete_pending) (rule distinct_keys_new_Map)

lemma set_Set_add: "set (Set_add s x) = insert x (set s)"
  by (auto simp: Set_add_def)

lemma set_foldl_Set_add: "set (foldl Set_add s xs) = set s \<union> set xs"
  by (induction xs arbitrary: s) (auto simp: set_Set_add)

lemma set_new_Set: "set (new_Set xs) = set xs"
  by (simp add: new_Set_def set_foldl_Set_add)

section \<open>Properties of the hook\<close>

lemma Number_toString_stars: "Number_toString other stars = ''1000''"
  by (simp add: Number_toString_def stars_def MAX_SAFE_INTEGER_def decimal.simps)

lemma starsQuery_eq: "starsQuery other = ''&stars=1000''"
  by (simp add: starsQuery_def Number_toString_stars) (simp add: Number_truthy_def stars_def)

lemma Number_ge_1_truthy: "Number_ge n (Finite 1) \<Longrightarrow> Number_truthy n"
  by (cases n) (auto simp: Number_truthy_def)

lemma endpointString_truthy:
  "Number_truthy (page st) \<Longrightarrow> Number_truthy (limit st) \<Longrightarrow>
     endpointString other st =
       ''prs/list?page='' @ Number_toString other (page st) @ ''&limit=''
         @ Number_toString other (limit st) @ ''&stars=1000''"
  by (simp add: endpointString_def baseEndpoint_def pageQuery_def limitQuery_def starsQuery_eq)

text \<open>
  Claim C5. The hook paginates through the query string: its cells start at page 1 and
  limit 500, the stars parameter is fixed at 1000, and after \<^verbatim>\<open>setPage(p)\<close> and
  \<^verbatim>\<open>setLimit(l)\<close> with \<open>p \<ge> 1\<close> and \<open>l \<ge> 1\<close> the endpoint string is
  \<^verbatim>\<open>"prs/list?page=" + p + "&limit=" + l + "&stars=1000"\<close>, for every number and however the
  language prints it. That string is the key the hook hands to \<^verbatim>\<open>useSWR\<close>: the data, the
  meta and the two flags the hook returns are those of the response under that key.
\<close>

theorem endpointString_paginates:
  assumes "Number_ge p (Finite 1)" and "Number_ge l (Finite 1)"
  shows "page usePullRequests_initial = Finite 1 \<and> limit usePullRequests_initial = Finite 500
     \<and> stars = Finite 1000
     \<and> endpointString other (setLimit l (setPage p st)) =
         ''prs/list?page='' @ Number_toString other p @ ''&limit='' @ Number_toString other l
           @ ''&stars=1000''
     \<and> (let r = useSWR (''prs/list?page='' @ Number_toString other p @ ''&limit=''
                           @ Number_toString other l @ ''&stars=1000'');
             h = usePullRequests other useSWR (setLimit l (setPage p st))
         in data h = (case swr_data r of Some d \<Rightarrow> response_data d | None \<Rightarrow> [])
            \<and> meta h =
                (case swr_data r of Some d \<Rightarrow> response_meta d
                 | None \<Rightarrow> \<lparr>itemCount = 0, meta_limit = 0, meta_page = 0, hasNextPage = False,
                             hasPreviousPage = False, pageCount = 0\<rparr>)
            \<and> (isLoading h \<longleftrightarrow> swr_error r = None \<and> swr_data r = None)
            \<and> (isError h \<longleftrightarrow> swr_error r \<noteq> None)
            \<and> result_page h = p)"
proof -
  let ?st = "setLimit l (setPage p st)"
  have pl: "page ?st = p" "limit ?st = l"
    by (simp_all add: setLimit_def setPage_def)
  from assms have "Number_truthy (page ?st)" "Number_truthy (limit ?st)"
    by (simp_all add: pl Number_ge_1_truthy)
  then have e: "endpointString other ?st =
      ''prs/list?page='' @ Number_toString other p @ ''&limit='' @ Number_toString other l
        @ ''&stars=1000''"
    using endpointString_truthy [of ?st other] by (simp add: pl)
  have h: "usePullRequests other useSWR ?st =
      (let r = useSWR (endpointString other ?st) in
       \<lparr>data = (case swr_data r of Some d \<Rightarrow> response_data d | None \<Rightarrow> []),
        meta = (case swr_data r of Some d \<Rightarrow> response_meta d
                | None \<Rightarrow> \<lparr>itemCount = 0, meta_limit = 0, meta_page = 0, hasNextPage = False,
                            hasPreviousPage = False, pageCount = 0\<rparr>),
        isLoading = (swr_error r = None \<and> swr_data r = None),
        isError = (swr_error r \<noteq> None),
        result_page = p\<rparr>)"
    by (simp add: usePullRequests_def Let_def pl)
  have init: "page usePullRequests_initial = Finite 1 \<and> limit usePullRequests_initial = Finite 500
      \<and> stars = Finite 1000"
    by (simp add: usePullRequests_initial_def stars_def)
  show ?thesis
    unfolding h e using init by (simp add: Let_def)
qed

theorem endpointString_paginates_witness:
  "Number_ge (Finite 2) (Finite 1) \<and> Number_ge (Finite 50) (Finite 1)
   \<and> Number_ge (Finite 1000000000000000000000) (Finite 1)
   \<and> endpointString exponent_notation (setLimit (Finite 50) (setPage (Finite 2) usePullRequests_initial)) =
       ''prs/list?page=2&limit=50&stars=1000''
   \<and> data (usePullRequests exponent_notation (answer_for ''prs/list?page=2&limit=50&stars=1000'')
             (setLimit (Finite 50) (setPage (Finite 2) usePullRequests_initial))) = [7]
   \<and> \<not> isError (usePullRequests exponent_notation (answer_for ''prs/list?page=2&limit=50&stars=1000'')
             (setLimit (Finite 50) (setPage (Finite 2) usePullRequests_initial)))
   \<and> endpointString exponent_notation
       (setLimit (Finite 50) (setPage (Finite 1000000000000000000000) usePullRequests_initial)) =
       ''prs/list?page=1e+21&limit=50&stars=1000''"
  using endpointString_paginates
    [where p = "Finite 2" and l = "Finite 50" and st = usePullRequests_initial
       and other = exponent_notation
       and useSWR = "answer_for ''prs/list?page=2&limit=50&stars=1000''"]
    endpointString_paginates
    [where p = "Finite 1000000000000000000000" and l = "Finite 50" and st = usePullRequests_initial
       and other = exponent_notation
       and useSWR = "answer_for ''prs/list?page=2&limit=50&stars=1000''"]
  by (simp add: Number_toString_def MAX_SAFE_INTEGER_def decimal.simps Let_def answer_for_def
      exponent_notation_def)

text \<open>
  Claim C9. The hook never exposes an absent response: when \<^verbatim>\<open>useSWR\<close> has produced no
  data, the hook returns the empty list as \<^verbatim>\<open>data\<close> and the all-zero, all-false \<^verbatim>\<open>meta\<close>;
  \<^verbatim>\<open>isLoading\<close> holds if and only if there is neither an error nor data, and \<^verbatim>\<open>isError\<close>
  holds if and only if there is an error.
\<close>

theorem usePullRequests_absent_response:
  "(swr_data (useSWR (endpointString other st)) = None \<longrightarrow>
      data (usePullRequests other useSWR st) = []
      \<and> meta (usePullRequests other useSWR st) =
          \<lparr>itemCount = 0, meta_limit = 0, meta_page = 0, hasNextPage = False,
           hasPreviousPage = False, pageCount = 0\<rparr>)
   \<and> (isLoading (usePullRequests other useSWR st) \<longleftrightarrow>
        swr_error (useSWR (endpointString other st)) = None
        \<and> swr_data (useSWR (endpointString other st)) = None)
   \<and> (isError (usePullRequests other useSWR st) \<longleftrightarrow>
        swr_error (useSWR (endpointString other st)) \<noteq> None)"
  by (simp add: usePullRequests_def Let_def)

theorem usePullRequests_absent_response_witness:
  "(let r = usePullRequests exponent_notation
              (\<lambda>key. \<lparr>swr_data = None, swr_error = Some ''Network Error''\<rparr>)
              usePullRequests_initial
    in data r = ([] :: nat list)
       \<and> meta r = \<lparr>itemCount = 0, meta_limit = 0, meta_page = 0, hasNextPage = False,
                    hasPreviousPage = False, pageCount = 0\<rparr>
       \<and> \<not> isLoading r \<and> isError r)"
  using usePullRequests_absent_response
    [of "\<lambda>key. \<lparr>swr_data = (None :: nat PaginatedResponse option), swr_error = Some ''Network Error''\<rparr>"
      exponent_notation usePullRequests_initial]
  by (simp add: Let_def)

section \<open>Properties of the settings page\<close>

text \<open>
  Claim C10. \<^verbatim>\<open>getServerSideProps\<close> returns \<^verbatim>\<open>{ notFound: true }\<close> exactly when the
  workspace fetch fails with status 404, throws its error exactly when the fetch fails with
  another status, and returns the fetched workspace as the page props exactly when the fetch
  carries no error.
\<close>

theorem getServerSideProps_cases:
  "(let r = fetchApiData (workspace_request sess workspaceId);
        result = getServerSideProps fetchApiData sess workspaceId
    in (result = Inr notFound \<longleftrightarrow> (\<exists>e. fetch_error r = Some e \<and> status e = 404))
       \<and> (result = Inl (Error (''Error loading workspaces page with ID '' @ template_string workspaceId))
            \<longleftrightarrow> (\<exists>e. fetch_error r = Some e \<and> status e \<noteq> 404))
       \<and> (result = Inr (props (fetch_data r)) \<longleftrightarrow> fetch_error r = None))"
  by (auto simp: getServerSideProps_def Let_def split: option.splits)

theorem getServerSideProps_cases_witness:
  "getServerSideProps
     (\<lambda>q. \<lparr>fetch_data = (None :: string option), fetch_error = Some \<lparr>status = 404\<rparr>\<rparr>)
     None (Some ''ws1'') = Inr notFound
   \<and> getServerSideProps
     (\<lambda>q. \<lparr>fetch_data = (None :: string option), fetch_error = Some \<lparr>status = 500\<rparr>\<rparr>)
     None (Some ''ws1'') = Inl (Error ''Error loading workspaces page with ID ws1'')
   \<and> getServerSideProps
     (\<lambda>q. \<lparr>fetch_data = Some (path q, bearerToken q), fetch_error = None\<rparr>)
     (Some \<lparr>access_token = ''token''\<rparr>) (Some ''ws1'') = Inr (props (Some (''workspaces/ws1'', ''token'')))"
  using getServerSideProps_cases
    [of "\<lambda>q. \<lparr>fetch_data = (None :: string option), fetch_error = Some \<lparr>status = 404\<rparr>\<rparr>"
      None "Some ''ws1''"]
    getServerSideProps_cases
    [of "\<lambda>q. \<lparr>fetch_data = (None :: string option), fetch_error = Some \<lparr>status = 500\<rparr>\<rparr>"
      None "Some ''ws1''"]
    getServerSideProps_cases
    [of "\<lambda>q. \<lparr>fetch_data = Some (path q, bearerToken q), fetch_error = None\<rparr>"
      "Some \<lparr>access_token = ''token''\<rparr>" "Some ''ws1''"]
  by (simp add: Let_def workspace_request_def template_string_def)

text \<open>
  Claim C1. In every render state the keys of \<^verbatim>\<open>pendingTrackedRepos\<close> are the initial
  tracked repos together with the keys of \<^verbatim>\<open>trackedRepos\<close>, without the repos pending
  deletion: a name is a key if and only if it is an initial tracked repo or a key of
  \<^verbatim>\<open>trackedRepos\<close>, and is not in \<^verbatim>\<open>trackedReposPendingDeletion\<close>.
\<close>

theorem pendingTrackedRepos_keys:
  "Map_has (pendingTrackedRepos (initialTrackedRepos resp) st) r \<longleftrightarrow>
     (r \<in> set (initialTrackedRepos resp) \<or> Map_has (trackedRepos st) r) \<and>
     \<not> Set_has (trackedReposPendingDeletion st) r"
  by (simp add: Map_has_def Set_has_def set_keys_pendingTrackedRepos)

theorem pendingTrackedRepos_keys_witness:
  "Map_keys (pendingTrackedRepos
      (initialTrackedRepos (Some \<lparr>rows = Some [\<lparr>repo = \<lparr>full_name = ''a/b''\<rparr>\<rparr>,
                                                \<lparr>repo = \<lparr>full_name = ''c/d''\<rparr>\<rparr>]\<rparr>))
      example_state) = [''c/d'', ''e/f'', ''g/h'']
   \<and> \<not> Map_has (pendingTrackedRepos
      (initialTrackedRepos (Some \<lparr>rows = Some [\<lparr>repo = \<lparr>full_name = ''a/b''\<rparr>\<rparr>,
                                                \<lparr>repo = \<lparr>full_name = ''c/d''\<rparr>\<rparr>]\<rparr>))
      example_state) ''a/b''"
  using pendingTrackedRepos_keys
    [of "Some \<lparr>rows = Some [\<lparr>repo = \<lparr>full_name = ''a/b''\<rparr>\<rparr>, \<lparr>repo = \<lparr>full_name = ''c/d''\<rparr>\<rparr>]\<rparr>"
      example_state "''a/b''"]
  by (simp add: example_state_def initialTrackedRepos_def pendingTrackedRepos_def new_Map_def
      Map_has_def Set_has_def Map_keys_def Map_delete_def)

text \<open>
  Claim C8. Pending deletion wins over re-addition: \<^verbatim>\<open>onAddToTrackingList\<close> leaves
  \<^verbatim>\<open>trackedReposPendingDeletion\<close> as it is, and a repo that is pending deletion is not a key
  of \<^verbatim>\<open>pendingTrackedRepos\<close>, neither after it has been selected again in the modal nor in
  any other state.
\<close>

theorem pending_deletion_wins:
  assumes "Set_has (trackedReposPendingDeletion st) r"
  shows "trackedReposPendingDeletion (onAddToTrackingList repos st) = trackedReposPendingDeletion st
     \<and> \<not> Map_has (pendingTrackedRepos initial (onAddToTrackingList repos st)) r
     \<and> \<not> Map_has (pendingTrackedRepos initial st) r"
proof -
  have same: "trackedReposPendingDeletion (onAddToTrackingList repos st) = trackedReposPendingDeletion st"
    by (simp add: onAddToTrackingList_def)
  from assms have "r \<in> set (trackedReposPendingDeletion st)"
    by (simp add: Set_has_def)
  with same show ?thesis
    by (simp add: Map_has_def set_keys_pendingTrackedRepos)
qed

theorem pending_deletion_wins_witness:
  "(let st = \<lparr>isDeleteModalOpen = False, workspaceName = ''w'', trackedReposModalOpen = True,
               trackedRepos = [], trackedReposPendingDeletion = [''a/b'']\<rparr>;
        st' = onAddToTrackingList [(''a/b'', True)] st
    in Set_has (trackedReposPendingDeletion st) ''a/b''
       \<and> Map_has (trackedRepos st') ''a/b''
       \<and> trackedReposPendingDeletion st' = [''a/b'']
       \<and> \<not> Map_has (pendingTrackedRepos [''a/b'', ''c/d''] st') ''a/b''
       \<and> Map_has (pendingTrackedRepos [''a/b'', ''c/d''] st') ''c/d'')"
  using pending_deletion_wins [of "\<lparr>isDeleteModalOpen = False, workspaceName = ''w'',
      trackedReposModalOpen = True, trackedRepos = [], trackedReposPendingDeletion = [''a/b'']\<rparr>"
      "''a/b''" "[(''a/b'', True)]" "[''a/b'', ''c/d'']"]
  by (simp add: Let_def Set_has_def Map_has_def Map_keys_def onAddToTrackingList_def new_Map_def
      pendingTrackedRepos_def Map_delete_def)

text \<open>
  Removing a repo in the table: with a name in the element's data set, \<^verbatim>\<open>onRemoveTrackedRepo\<close>
  takes the repo out of \<^verbatim>\<open>trackedRepos\<close>, puts it into \<^verbatim>\<open>trackedReposPendingDeletion\<close>, and the
  repo is no longer a key of \<^verbatim>\<open>pendingTrackedRepos\<close>; with an absent or empty name the state
  stays as it is.
\<close>

theorem onRemoveTrackedRepo_removes:
  assumes "r \<noteq> ''''"
  shows "\<not> Map_has (trackedRepos (onRemoveTrackedRepo (Some r) st)) r
     \<and> Set_has (trackedReposPendingDeletion (onRemoveTrackedRepo (Some r) st)) r
     \<and> \<not> Map_has (pendingTrackedRepos initial (onRemoveTrackedRepo (Some r) st)) r
     \<and> onRemoveTrackedRepo None st = st
     \<and> onRemoveTrackedRepo (Some '''') st = st"
proof -
  let ?st = "onRemoveTrackedRepo (Some r) st"
  from assms have t: "trackedRepos ?st = Map_delete (new_Map (trackedRepos st)) r"
    and p: "trackedReposPendingDeletion ?st = new_Set (trackedReposPendingDeletion st @ [r])"
    by (simp_all add: onRemoveTrackedRepo_def)
  have "\<not> Map_has (trackedRepos ?st) r"
    unfolding t Map_has_def set_keys_Map_delete by simp
  moreover have inp: "r \<in> set (trackedReposPendingDeletion ?st)"
    unfolding p set_new_Set by simp
  moreover from inp have "\<not> Map_has (pendingTrackedRepos initial ?st) r"
    by (simp add: Map_has_def set_keys_pendingTrackedRepos)
  ultimately show ?thesis
    by (simp add: Set_has_def onRemoveTrackedRepo_def)
qed

theorem onRemoveTrackedRepo_removes_witness:
  "(let st = \<lparr>isDeleteModalOpen = False, workspaceName = ''w'', trackedReposModalOpen = False,
               trackedRepos = [(''e/f'', True)], trackedReposPendingDeletion = []\<rparr>;
        st' = onRemoveTrackedRepo (Some ''a/b'') st
    in ''a/b'' \<noteq> '''' \<and> Map_has (pendingTrackedRepos [''a/b''] st) ''a/b''
       \<and> trackedReposPendingDeletion st' = [''a/b'']
       \<and> \<not> Map_has (pendingTrackedRepos [''a/b''] st') ''a/b''
       \<and> Map_has (pendingTrackedRepos [''a/b''] st') ''e/f'')"
  using onRemoveTrackedRepo_removes [of "''a/b''" "\<lparr>isDeleteModalOpen = False, workspaceName = ''w'',
      trackedReposModalOpen = False, trackedRepos = [(''e/f'', True)],
      trackedReposPendingDeletion = []\<rparr>" "[''a/b'']"]
  by (simp add: Let_def Set_has_def Map_has_def Map_keys_def onRemoveTrackedRepo_def new_Map_def
      new_Set_def Set_add_def pendingTrackedRepos_def Map_delete_def)

text \<open>
  Claim C2 says that the submit handler issues its two requests in parallel, the
  delete-tracked-repos request being started before the save-workspace request has
  completed. The handler awaits \<^verbatim>\<open>saveWorkspace\<close> before it calls \<^verbatim>\<open>deleteTrackedRepos\<close>: in
  every run the wait for the save result is the third event and the call of
  \<^verbatim>\<open>deleteTrackedRepos\<close> is the fourth, so the second request starts only after the first
  has completed.
\<close>

theorem updateWorkspace_requests_in_sequence:
  "position (awaited SaveWorkspace)
     (fst (updateWorkspace saveWorkspace deleteTrackedRepos workspace_id sessionToken st name descr)) = Some 2
   \<and> position (deleteTrackedRepos_called (deleteTrackedRepos_request workspace_id sessionToken st))
     (fst (updateWorkspace saveWorkspace deleteTrackedRepos workspace_id sessionToken st name descr)) = Some 3"
  by (simp add: updateWorkspace_def Let_def)

theorem updateWorkspace_requests_in_sequence_witness:
  "fst (updateWorkspace request_ok request_ok ''ws1'' (Some ''token'') example_state ''new'' ''text'') =
     [preventDefault,
      saveWorkspace_called
        \<lparr>sw_workspaceId = ''ws1'', sw_name = ''new'', sw_description = ''text'',
         sw_sessionToken = Some ''token'',
         sw_repos = [\<lparr>full_name = ''e/f''\<rparr>, \<lparr>full_name = ''g/h''\<rparr>]\<rparr>,
      awaited SaveWorkspace,
      deleteTrackedRepos_called
        \<lparr>dr_workspaceId = ''ws1'', dr_sessionToken = Some ''token'',
         dr_repos = [\<lparr>full_name = ''a/b''\<rparr>]\<rparr>,
      awaited DeleteTrackedRepos,
      awaited_Promise_all [SaveWorkspace, DeleteTrackedRepos],
      dispatch_WORKSPACE_UPDATED_EVENT (Some ''done''),
      mutateTrackedRepos,
      toast \<lparr>description = ''Workspace updated successfully'', variant = success\<rparr>]
   \<and> position (awaited SaveWorkspace)
        (fst (updateWorkspace request_ok request_ok ''ws1'' (Some ''token'') example_state
               ''new'' ''text'')) = Some 2
   \<and> position
        (deleteTrackedRepos_called
          \<lparr>dr_workspaceId = ''ws1'', dr_sessionToken = Some ''token'',
           dr_repos = [\<lparr>full_name = ''a/b''\<rparr>]\<rparr>)
        (fst (updateWorkspace request_ok request_ok ''ws1'' (Some ''token'') example_state
               ''new'' ''text'')) = Some 3"
  using updateWorkspace_requests_in_sequence
    [of request_ok request_ok "''ws1''" "Some ''token''" example_state "''new''" "''text''"]
  by (simp add: updateWorkspace_def Let_def saveWorkspace_request_def
      deleteTrackedRepos_request_def Array_from_keys_def Array_from_set_def example_state_def
      request_ok_def)




text \<open>
  Where both requests fulfil, the handler with rejections is the handler above: the same
  effects and the same state, and it settles by fulfilling.
\<close>

lemma updateWorkspace_settled_fulfilled:
  "updateWorkspace_settled (\<lambda>q. Inr (saveWorkspace q)) (\<lambda>q. Inr (deleteTrackedRepos q))
       workspace_id sessionToken st name descr =
     (fst (updateWorkspace saveWorkspace deleteTrackedRepos workspace_id sessionToken st name descr),
      snd (updateWorkspace saveWorkspace deleteTrackedRepos workspace_id sessionToken st name descr),
      fulfilled)"
  by (simp add: updateWorkspace_settled_def updateWorkspace_def Let_def)

text \<open>
  Claim C4. On a successful submit the handler sets \<^verbatim>\<open>workspaceName\<close> to the submitted name
  and resets \<^verbatim>\<open>trackedRepos\<close> to the empty map and \<^verbatim>\<open>trackedReposPendingDeletion\<close> to the
  empty set; on a failed submit the three are left as they were.
\<close>

theorem updateWorkspace_state:
  "(let st' = snd (updateWorkspace saveWorkspace deleteTrackedRepos workspace_id sessionToken st name descr)
    in if result_error (saveWorkspace (saveWorkspace_request workspace_id sessionToken st name descr)) \<noteq> None
          \<or> result_error (deleteTrackedRepos (deleteTrackedRepos_request workspace_id sessionToken st)) \<noteq> None
       then workspaceName st' = workspaceName st \<and> trackedRepos st' = trackedRepos st
            \<and> trackedReposPendingDeletion st' = trackedReposPendingDeletion st
       else workspaceName st' = name \<and> trackedRepos st' = [] \<and> trackedReposPendingDeletion st' = [])"
  by (simp add: updateWorkspace_def Let_def new_Map_def new_Set_def)

theorem updateWorkspace_state_witness:
  "snd (updateWorkspace request_ok request_ok ''ws1'' (Some ''token'') example_state ''new'' ''text'') =
     \<lparr>isDeleteModalOpen = False, workspaceName = ''new'', trackedReposModalOpen = False,
      trackedRepos = [], trackedReposPendingDeletion = []\<rparr>
   \<and> snd (updateWorkspace request_ok request_failed ''ws1'' (Some ''token'') example_state
            ''new'' ''text'') = example_state"
  using updateWorkspace_state
    [of request_ok request_ok "''ws1''" "Some ''token''" example_state "''new''" "''text''"]
    updateWorkspace_state
    [of request_ok request_failed "''ws1''" "Some ''token''" example_state "''new''" "''text''"]
  by (simp add: updateWorkspace_def Let_def request_ok_def request_failed_def example_state_def
      new_Map_def new_Set_def)

text \<open>
  Claim C6. The payloads reflect the local diff: \<^verbatim>\<open>saveWorkspace\<close> is called once, with the
  keys of \<^verbatim>\<open>trackedRepos\<close> as its repos, and \<^verbatim>\<open>deleteTrackedRepos\<close> is called once, with the
  elements of \<^verbatim>\<open>trackedReposPendingDeletion\<close> as its repos, each name wrapped as
  \<^verbatim>\<open>{ full_name }\<close>.
\<close>

theorem updateWorkspace_payloads:
  "(let tr = fst (updateWorkspace saveWorkspace deleteTrackedRepos workspace_id sessionToken st name descr)
    in map sw_repos (save_requests tr) =
         [map (\<lambda>r. \<lparr>full_name = r\<rparr>) (Map_keys (trackedRepos st))]
       \<and> map dr_repos (delete_repos_requests tr) =
         [map (\<lambda>r. \<lparr>full_name = r\<rparr>) (trackedReposPendingDeletion st)])"
  by (simp add: updateWorkspace_def Let_def save_requests_def delete_repos_requests_def
      saveWorkspace_request_def deleteTrackedRepos_request_def Array_from_keys_def
      Array_from_set_def Map_keys_def)

theorem updateWorkspace_payloads_witness:
  "map sw_repos (save_requests
      (fst (updateWorkspace request_ok request_failed ''ws1'' (Some ''token'') example_state
             ''new'' ''text''))) =
     [[\<lparr>full_name = ''e/f''\<rparr>, \<lparr>full_name = ''g/h''\<rparr>]]
   \<and> map dr_repos (delete_repos_requests
      (fst (updateWorkspace request_ok request_failed ''ws1'' (Some ''token'') example_state
             ''new'' ''text''))) =
     [[\<lparr>full_name = ''a/b''\<rparr>]]"
  using updateWorkspace_payloads
    [of request_ok request_failed "''ws1''" "Some ''token''" example_state "''new''" "''text''"]
  by (simp add: Let_def example_state_def Map_keys_def)

text \<open>
  Claim C7. The \<^verbatim>\<open>onDelete\<close> handler branches on the \<^verbatim>\<open>deleteWorkspace\<close> result: with an
  error it shows the danger toast "Workspace delete failed" and does not navigate; without
  one it shows the success toast "Workspace deleted successfully" and navigates to
  \<^verbatim>\<open>/workspaces/new\<close>.
\<close>

theorem onDelete_branches:
  "(let tr = onDelete deleteWorkspace workspace_id sessionToken;
        failed = (result_error (deleteWorkspace
                    \<lparr>dw_workspaceId = workspace_id, dw_sessionToken = sessionToken\<rparr>) \<noteq> None)
    in if failed
       then toasts tr = [\<lparr>description = ''Workspace delete failed'', variant = danger\<rparr>]
            \<and> navigations tr = []
       else toasts tr = [\<lparr>description = ''Workspace deleted successfully'', variant = success\<rparr>]
            \<and> navigations tr = [''/workspaces/new''])"
  by (simp add: onDelete_def Let_def toasts_def navigations_def)

theorem onDelete_branches_witness:
  "toasts (onDelete request_failed ''ws1'' (Some ''token'')) =
     [\<lparr>description = ''Workspace delete failed'', variant = danger\<rparr>]
   \<and> navigations (onDelete request_failed ''ws1'' (Some ''token'')) = []
   \<and> toasts (onDelete request_ok ''ws1'' (Some ''token'')) =
     [\<lparr>description = ''Workspace deleted successfully'', variant = success\<rparr>]
   \<and> navigations (onDelete request_ok ''ws1'' (Some ''token'')) = [''/workspaces/new'']"
  using onDelete_branches [of request_failed "''ws1''" "Some ''token''"]
    onDelete_branches [of request_ok "''ws1''" "Some ''token''"]
  by (simp add: Let_def request_ok_def request_failed_def)

end
